theory Spec2Isabelle
  imports Complex_Main
begin

section \<open>JSON values and HTTP responses\<close>

text \<open>
  The handlers of \<^verbatim>\<open>backend/src/routes/auth.js\<close> answer with
  \<^verbatim>\<open>res.status(n).json(obj)\<close>. A response is the status code and the JSON
  body; a JSON object is the list of its keys with their values, in the order written.
\<close>

datatype json =
    JNull
  | JBool bool
  | JStr string
  | JArr "json list"
  | JObj "(string \<times> json) list"

record response =
  status :: nat
  body :: json

fun jget :: "string \<Rightarrow> json \<Rightarrow> json option" where
  "jget k (JObj kvs) = map_of kvs k"
| "jget k _ = None"

fun jkeys :: "json \<Rightarrow> string list" where
  "jkeys (JObj kvs) = map fst kvs"
| "jkeys _ = []"

definition optJson :: "string option \<Rightarrow> json" where
  "optJson v = (case v of None \<Rightarrow> JNull | Some s \<Rightarrow> JStr s)"

section \<open>Persisted records\<close>

text \<open>
  The rows the handlers read and write through Prisma. A user row has the columns that
  \<^verbatim>\<open>prisma.user.create\<close> is given (routes/auth.js, lines 88-105) together with
  the columns it selects (\<^verbatim>\<open>id\<close>, \<^verbatim>\<open>logo\<close>, \<^verbatim>\<open>createdAt\<close>);
  a template row has the columns of \<^verbatim>\<open>prisma.template.create\<close> (lines 123-133).
\<close>

record user =
  u_id :: string
  u_email :: string
  u_password :: string
  u_firstName :: string
  u_lastName :: string
  u_company :: "string option"
  u_phone :: "string option"
  u_website :: "string option"
  u_address :: "string option"
  u_city :: "string option"
  u_state :: "string option"
  u_zipCode :: "string option"
  u_country :: "string option"
  u_taxId :: "string option"
  u_logo :: "string option"
  u_currency :: string
  u_timezone :: string
  u_createdAt :: string

record template =
  t_id :: string
  t_name :: string
  t_description :: string
  t_html :: string
  t_css :: string
  t_isDefault :: bool
  t_isActive :: bool
  t_userId :: string

record database =
  users :: "user list"
  templates :: "template list"

definition emptyDb :: database where
  "emptyDb = \<lparr>users = [], templates = []\<rparr>"

text \<open>A user row as the JSON object Prisma returns when nothing is selected.\<close>

definition userRow :: "user \<Rightarrow> (string \<times> json) list" where
  "userRow u =
    [(''id'', JStr (u_id u)),
     (''email'', JStr (u_email u)),
     (''password'', JStr (u_password u)),
     (''firstName'', JStr (u_firstName u)),
     (''lastName'', JStr (u_lastName u)),
     (''company'', optJson (u_company u)),
     (''phone'', optJson (u_phone u)),
     (''website'', optJson (u_website u)),
     (''address'', optJson (u_address u)),
     (''city'', optJson (u_city u)),
     (''state'', optJson (u_state u)),
     (''zipCode'', optJson (u_zipCode u)),
     (''country'', optJson (u_country u)),
     (''taxId'', optJson (u_taxId u)),
     (''logo'', optJson (u_logo u)),
     (''currency'', JStr (u_currency u)),
     (''timezone'', JStr (u_timezone u)),
     (''createdAt'', JStr (u_createdAt u))]"

text \<open>Prisma's \<^verbatim>\<open>select: { k: true, ... }\<close>: only the selected columns are returned.\<close>

definition prismaSelect :: "string list \<Rightarrow> (string \<times> json) list \<Rightarrow> (string \<times> json) list" where
  "prismaSelect sel row = filter (\<lambda>kv. fst kv \<in> set sel) row"

section \<open>Collaborators\<close>

text \<open>
  The handlers call the database, bcryptjs and jsonwebtoken. Each call either returns or
  throws; a throw lands in the handler's \<^verbatim>\<open>catch\<close>. The environment of one request
  says which calls throw and what the libraries compute: the generated ids, the clock, the
  salt, and the hash, compare, sign and verify functions.
\<close>

datatype call = FindUnique | GenSalt | Hash | UserCreate | JwtSign | TemplateCreate | JwtVerify | Compare

datatype exn = Thrown

record env =
  throws :: "call \<Rightarrow> bool"
  newUserId :: string
  newTemplateId :: string
  now :: string
  salt :: string
  bcryptHash :: "string \<Rightarrow> string \<Rightarrow> string"
  bcryptCompare :: "string \<Rightarrow> string \<Rightarrow> bool"
  jwtSign :: "string \<Rightarrow> string \<Rightarrow> string"
  jwtVerify :: "string \<Rightarrow> string option"

text \<open>
  middleware/auth.js, \<^verbatim>\<open>generateTokens\<close> (lines 67-81): an access token that
  expires in 15 minutes and a refresh token that expires in 7 days, both signed over the
  user id.
\<close>

definition generateTokens :: "env \<Rightarrow> string \<Rightarrow> exn + (string \<times> string)" where
  "generateTokens e userId =
    (if throws e JwtSign then Inl Thrown
     else Inr (jwtSign e userId ''15m'', jwtSign e userId ''7d''))"

text \<open>\<^verbatim>\<open>prisma.user.findUnique({ where: { email } })\<close> and \<^verbatim>\<open>{ where: { id } }\<close>.\<close>

definition findUniqueByEmail :: "env \<Rightarrow> database \<Rightarrow> string \<Rightarrow> exn + user option" where
  "findUniqueByEmail e d em =
    (if throws e FindUnique then Inl Thrown
     else Inr (find (\<lambda>u. u_email u = em) (users d)))"

definition findUniqueById :: "env \<Rightarrow> database \<Rightarrow> string \<Rightarrow> exn + user option" where
  "findUniqueById e d i =
    (if throws e FindUnique then Inl Thrown
     else Inr (find (\<lambda>u. u_id u = i) (users d)))"

section \<open>POST /api/auth/register\<close>

record registerBody =
  email :: string
  password :: string
  firstName :: string
  lastName :: string
  company :: "string option"
  phone :: "string option"
  website :: "string option"
  address :: "string option"
  city :: "string option"
  state :: "string option"
  zipCode :: "string option"
  country :: "string option"
  taxId :: "string option"
  currency :: "string option"
  timezone :: "string option"

text \<open>
  \<^verbatim>\<open>prisma.user.create\<close> (lines 88-117). The email and the id are unique columns
  (both are keys of a \<^verbatim>\<open>findUnique\<close>), so the call throws when either is taken.
  The destructuring defaults \<^verbatim>\<open>currency = 'USD'\<close> and \<^verbatim>\<open>timezone = 'UTC'\<close>
  (lines 65-66) apply when the body leaves the field out.
\<close>

definition newUser :: "env \<Rightarrow> string \<Rightarrow> registerBody \<Rightarrow> user" where
  "newUser e hashedPassword b =
    \<lparr>u_id = newUserId e,
     u_email = email b,
     u_password = hashedPassword,
     u_firstName = firstName b,
     u_lastName = lastName b,
     u_company = company b,
     u_phone = phone b,
     u_website = website b,
     u_address = address b,
     u_city = city b,
     u_state = state b,
     u_zipCode = zipCode b,
     u_country = country b,
     u_taxId = taxId b,
     u_logo = None,
     u_currency = (case currency b of None \<Rightarrow> ''USD'' | Some c \<Rightarrow> c),
     u_timezone = (case timezone b of None \<Rightarrow> ''UTC'' | Some z \<Rightarrow> z),
     u_createdAt = now e\<rparr>"

definition userCreate :: "env \<Rightarrow> database \<Rightarrow> string \<Rightarrow> registerBody \<Rightarrow> exn + (user \<times> database)" where
  "userCreate e d hashedPassword b =
    (if throws e UserCreate
        \<or> list_ex (\<lambda>u. u_email u = email b \<or> u_id u = newUserId e) (users d)
     then Inl Thrown
     else Inr (newUser e hashedPassword b,
               d\<lparr>users := users d @ [newUser e hashedPassword b]\<rparr>))"

definition registerSelect :: "string list" where
  "registerSelect =
    [''id'', ''email'', ''firstName'', ''lastName'', ''company'', ''logo'',
     ''currency'', ''timezone'', ''createdAt'']"

definition nl :: string where
  "nl = [CHR 0x0A]"

definition unlines :: "string list \<Rightarrow> string" where
  "unlines ls = concat (map (\<lambda>l. l @ nl) ls)"

text \<open>\<^verbatim>\<open>getDefaultTemplateHTML\<close> (lines 306-363): the template literal, line by line.\<close>

definition getDefaultTemplateHTML :: string where
  \<open>getDefaultTemplateHTML = nl @ unlines
    [
     ''    <div class="invoice-template">'',
     ''      <div class="header">'',
     ''        <div class="company-info">'',
     ''          <h1>{{companyName}}</h1>'',
     ''          <p>{{companyAddress}}</p>'',
     ''        </div>'',
     ''        <div class="invoice-info">'',
     ''          <h2>INVOICE</h2>'',
     ''          <p><strong>Invoice #:</strong> {{invoiceNumber}}</p>'',
     ''          <p><strong>Date:</strong> {{issueDate}}</p>'',
     ''          <p><strong>Due Date:</strong> {{dueDate}}</p>'',
     ''        </div>'',
     ''      </div>'',
     ''      '',
     ''      <div class="client-info">'',
     ''        <h3>Bill To:</h3>'',
     ''        <p>{{clientName}}</p>'',
     ''        <p>{{clientAddress}}</p>'',
     ''      </div>'',
     ''      '',
     ''      <div class="items">'',
     ''        <table>'',
     ''          <thead>'',
     ''            <tr>'',
     ''              <th>Description</th>'',
     ''              <th>Qty</th>'',
     ''              <th>Unit Price</th>'',
     ''              <th>Total</th>'',
     ''            </tr>'',
     ''          </thead>'',
     ''          <tbody>'',
     ''            {{#each items}}'',
     ''            <tr>'',
     ''              <td>{{description}}</td>'',
     ''              <td>{{quantity}}</td>'',
     ''              <td>{{unitPrice}}</td>'',
     ''              <td>{{total}}</td>'',
     ''            </tr>'',
     ''            {{/each}}'',
     ''          </tbody>'',
     ''        </table>'',
     ''      </div>'',
     ''      '',
     ''      <div class="totals">'',
     ''        <p><strong>Subtotal:</strong> {{subtotal}}</p>'',
     ''        <p><strong>Tax ({{taxRate}}%):</strong> {{taxAmount}}</p>'',
     ''        <p><strong>Total:</strong> {{total}}</p>'',
     ''      </div>'',
     ''      '',
     ''      <div class="footer">'',
     ''        <p>{{notes}}</p>'',
     ''        <p>{{terms}}</p>'',
     ''      </div>'',
     ''    </div>''
    ] @ ''  ''\<close>

text \<open>\<^verbatim>\<open>getDefaultTemplateCSS\<close> (lines 365-435).\<close>

definition getDefaultTemplateCSS :: string where
  \<open>getDefaultTemplateCSS = nl @ unlines
    [
     ''    .invoice-template {'',
     ''      font-family: Arial, sans-serif;'',
     ''      max-width: 800px;'',
     ''      margin: 0 auto;'',
     ''      padding: 20px;'',
     ''    }'',
     ''    '',
     ''    .header {'',
     ''      display: flex;'',
     ''      justify-content: space-between;'',
     ''      margin-bottom: 30px;'',
     ''      border-bottom: 2px solid #333;'',
     ''      padding-bottom: 20px;'',
     ''    }'',
     ''    '',
     ''    .company-info h1 {'',
     ''      color: #333;'',
     ''      margin: 0 0 10px 0;'',
     ''    }'',
     ''    '',
     ''    .invoice-info h2 {'',
     ''      color: #333;'',
     ''      margin: 0 0 15px 0;'',
     ''    }'',
     ''    '',
     ''    .client-info {'',
     ''      margin-bottom: 30px;'',
     ''    }'',
     ''    '',
     ''    .client-info h3 {'',
     ''      color: #333;'',
     ''      border-bottom: 1px solid #ccc;'',
     ''      padding-bottom: 5px;'',
     ''    }'',
     ''    '',
     ''    table {'',
     ''      width: 100%;'',
     ''      border-collapse: collapse;'',
     ''      margin-bottom: 20px;'',
     ''    }'',
     ''    '',
     ''    th, td {'',
     ''      padding: 10px;'',
     ''      text-align: left;'',
     ''      border-bottom: 1px solid #ddd;'',
     ''    }'',
     ''    '',
     ''    th {'',
     ''      background-color: #f5f5f5;'',
     ''      font-weight: bold;'',
     ''    }'',
     ''    '',
     ''    .totals {'',
     ''      text-align: right;'',
     ''      margin-bottom: 30px;'',
     ''    }'',
     ''    '',
     ''    .totals p {'',
     ''      margin: 5px 0;'',
     ''    }'',
     ''    '',
     ''    .footer {'',
     ''      border-top: 1px solid #ccc;'',
     ''      padding-top: 20px;'',
     ''      font-size: 14px;'',
     ''      color: #666;'',
     ''    }''
    ] @ ''  ''\<close>

text \<open>\<^verbatim>\<open>prisma.template.create\<close> for the seeded template (lines 122-133).\<close>

definition defaultTemplate :: "env \<Rightarrow> string \<Rightarrow> template" where
  "defaultTemplate e owner =
    \<lparr>t_id = newTemplateId e,
     t_name = ''Default Template'',
     t_description = ''Default invoice template'',
     t_html = getDefaultTemplateHTML,
     t_css = getDefaultTemplateCSS,
     t_isDefault = True,
     t_isActive = True,
     t_userId = owner\<rparr>"

definition templateCreate :: "env \<Rightarrow> database \<Rightarrow> template \<Rightarrow> exn + database" where
  "templateCreate e d t =
    (if throws e TemplateCreate then Inl Thrown
     else Inr (d\<lparr>templates := templates d @ [t]\<rparr>))"

definition validationFailed :: "json list \<Rightarrow> response" where
  "validationFailed errs =
    \<lparr>status = 400,
     body = JObj [(''success'', JBool False),
                  (''error'', JObj [(''message'', JStr ''Validation failed''),
                                    (''details'', JArr errs)])]\<rparr>"

definition errorResponse :: "nat \<Rightarrow> string \<Rightarrow> response" where
  "errorResponse code msg =
    \<lparr>status = code,
     body = JObj [(''success'', JBool False),
                  (''error'', JObj [(''message'', JStr msg)])]\<rparr>"

definition successResponse :: "nat \<Rightarrow> string \<Rightarrow> json \<Rightarrow> string \<times> string \<Rightarrow> response" where
  "successResponse code msg userObj toks =
    \<lparr>status = code,
     body = JObj [(''success'', JBool True),
                  (''message'', JStr msg),
                  (''data'', JObj [(''user'', userObj),
                                   (''tokens'', JObj [(''accessToken'', JStr (fst toks)),
                                                      (''refreshToken'', JStr (snd toks))])])]\<rparr>"

text \<open>
  \<^verbatim>\<open>bcrypt.genSalt(10)\<close> followed by \<^verbatim>\<open>bcrypt.hash(password, salt)\<close>
  (lines 83-85).
\<close>

definition hashPassword :: "env \<Rightarrow> string \<Rightarrow> exn + string" where
  "hashPassword e pw =
    (if throws e GenSalt \<or> throws e Hash then Inl Thrown
     else Inr (bcryptHash e pw (salt e)))"

text \<open>
  The handler (lines 37-155). \<open>errs\<close> is \<^verbatim>\<open>validationResult(req).array()\<close>, computed by
  express-validator before the handler runs. Every \<open>Inl\<close> below is the \<^verbatim>\<open>catch\<close> at lines
  146-154: status 500, against whatever the database holds at that moment.
\<close>

definition registerHandler :: "registerBody \<Rightarrow> json list \<Rightarrow> env \<Rightarrow> database \<Rightarrow> response \<times> database" where
  "registerHandler b errs e d =
    (if errs \<noteq> [] then (validationFailed errs, d)
     else case findUniqueByEmail e d (email b) of
       Inl _ \<Rightarrow> (errorResponse 500 ''Internal server error'', d)
     | Inr (Some existingUser) \<Rightarrow> (errorResponse 400 ''User already exists with this email'', d)
     | Inr None \<Rightarrow>
        (case hashPassword e (password b) of
           Inl _ \<Rightarrow> (errorResponse 500 ''Internal server error'', d)
         | Inr hashedPassword \<Rightarrow>
            (case userCreate e d hashedPassword b of
               Inl _ \<Rightarrow> (errorResponse 500 ''Internal server error'', d)
             | Inr (u, d1) \<Rightarrow>
                (case generateTokens e (u_id u) of
                   Inl _ \<Rightarrow> (errorResponse 500 ''Internal server error'', d1)
                 | Inr toks \<Rightarrow>
                    (case templateCreate e d1 (defaultTemplate e (u_id u)) of
                       Inl _ \<Rightarrow> (errorResponse 500 ''Internal server error'', d1)
                     | Inr d2 \<Rightarrow>
                        (successResponse 201 ''User registered successfully''
                           (JObj (prismaSelect registerSelect (userRow u))) toks, d2))))))"

section \<open>POST /api/auth/login\<close>

text \<open>
  The handler (lines 160-237), with \<^verbatim>\<open>const { email, password } = req.body\<close> as its
  first two arguments. The user object of the answer is built field by field (lines
  205-215); the row it is built from carries the password hash.
\<close>

definition loginUserData :: "user \<Rightarrow> json" where
  "loginUserData u =
    JObj [(''id'', JStr (u_id u)),
          (''email'', JStr (u_email u)),
          (''firstName'', JStr (u_firstName u)),
          (''lastName'', JStr (u_lastName u)),
          (''company'', optJson (u_company u)),
          (''logo'', optJson (u_logo u)),
          (''currency'', JStr (u_currency u)),
          (''timezone'', JStr (u_timezone u)),
          (''createdAt'', JStr (u_createdAt u))]"

definition loginHandler :: "string \<Rightarrow> string \<Rightarrow> json list \<Rightarrow> env \<Rightarrow> database \<Rightarrow> response \<times> database" where
  "loginHandler em pw errs e d =
    (if errs \<noteq> [] then (validationFailed errs, d)
     else case findUniqueByEmail e d em of
       Inl _ \<Rightarrow> (errorResponse 500 ''Internal server error'', d)
     | Inr None \<Rightarrow> (errorResponse 401 ''Invalid credentials'', d)
     | Inr (Some u) \<Rightarrow>
        (if throws e Compare then (errorResponse 500 ''Internal server error'', d)
         else if \<not> bcryptCompare e pw (u_password u)
           then (errorResponse 401 ''Invalid credentials'', d)
         else case generateTokens e (u_id u) of
           Inl _ \<Rightarrow> (errorResponse 500 ''Internal server error'', d)
         | Inr toks \<Rightarrow> (successResponse 200 ''Login successful'' (loginUserData u) toks, d)))"

section \<open>POST /api/auth/refresh\<close>

text \<open>
  The handler (lines 242-303). \<^verbatim>\<open>!refreshToken\<close> holds for a missing field and for
  the empty string. The \<^verbatim>\<open>catch\<close> of this handler answers 401 for every throw, the
  database's included.
\<close>

definition refreshSelect :: "string list" where
  "refreshSelect =
    [''id'', ''email'', ''firstName'', ''lastName'', ''company'', ''logo'',
     ''currency'', ''timezone'']"

definition refreshHandler :: "string option \<Rightarrow> env \<Rightarrow> database \<Rightarrow> response \<times> database" where
  "refreshHandler refreshToken e d =
    (case refreshToken of
       None \<Rightarrow> (errorResponse 400 ''Refresh token is required'', d)
     | Some tok \<Rightarrow>
        (if tok = [] then (errorResponse 400 ''Refresh token is required'', d)
         else if throws e JwtVerify then (errorResponse 401 ''Invalid refresh token'', d)
         else case jwtVerify e tok of
           None \<Rightarrow> (errorResponse 401 ''Invalid refresh token'', d)
         | Some userId \<Rightarrow>
            (case findUniqueById e d userId of
               Inl _ \<Rightarrow> (errorResponse 401 ''Invalid refresh token'', d)
             | Inr None \<Rightarrow> (errorResponse 401 ''User not found'', d)
             | Inr (Some u) \<Rightarrow>
                (case generateTokens e (u_id u) of
                   Inl _ \<Rightarrow> (errorResponse 401 ''Invalid refresh token'', d)
                 | Inr newTokens \<Rightarrow>
                    (successResponse 200 ''Token refreshed successfully''
                       (JObj (prismaSelect refreshSelect (userRow u))) newTokens, d)))))"

section \<open>The default-template invariant\<close>

text \<open>The templates of an owner that are flagged default.\<close>

definition defaultsOf :: "database \<Rightarrow> string \<Rightarrow> template list" where
  "defaultsOf d owner = filter (\<lambda>t. t_userId t = owner \<and> t_isDefault t) (templates d)"

definition templatesOf :: "database \<Rightarrow> string \<Rightarrow> template list" where
  "templatesOf d owner = filter (\<lambda>t. t_userId t = owner) (templates d)"

text \<open>The user object inside a success answer: \<^verbatim>\<open>body.data.user\<close>.\<close>

definition responseUser :: "response \<Rightarrow> json option" where
  "responseUser r =
    (case jget ''data'' (body r) of
       None \<Rightarrow> None
     | Some dat \<Rightarrow> jget ''user'' dat)"

section \<open>Concrete requests\<close>

definition aliceBody :: registerBody where
  "aliceBody =
    \<lparr>email = ''alice@example.com'', password = ''secret1'',
     firstName = ''Alice'', lastName = ''Liddell'',
     company = Some ''Wonderland Ltd'', phone = None, website = None, address = None,
     city = None, state = None, zipCode = None, country = None, taxId = None,
     currency = None, timezone = None\<rparr>"

definition quietEnv :: env where
  "quietEnv =
    \<lparr>throws = (\<lambda>c. False),
     newUserId = ''u1'', newTemplateId = ''t1'', now = ''2024-01-01T00:00:00Z'',
     salt = ''s'',
     bcryptHash = (\<lambda>pw s. s @ pw),
     bcryptCompare = (\<lambda>pw h. h = ''s'' @ pw),
     jwtSign = (\<lambda>userId expiresIn. userId @ ''.'' @ expiresIn),
     jwtVerify = (\<lambda>tok. if tok = ''u1.7d'' then Some ''u1'' else None)\<rparr>"

definition templateFailsEnv :: env where
  "templateFailsEnv = quietEnv\<lparr>throws := (\<lambda>c. c = TemplateCreate)\<rparr>"



definition aliceDb :: database where
  "aliceDb = snd (registerHandler aliceBody [] quietEnv emptyDb)"

section \<open>Computation Engine\<close>

text \<open>
  Modelled from the spec: the Computation Engine of section 4.1. The invoice routes that
  \<^verbatim>\<open>server.js\<close> mounts under \<^verbatim>\<open>/api/invoices\<close> are not among the source files, so
  the engine is written from the spec's contract. Amounts are exact rationals (the spec
  asks for decimal arithmetic, never binary floating point); \<open>mu\<close> is the number of
  minor-unit digits of the currency (2 for cents).
\<close>

record LineItem =
  description :: string
  quantity :: rat
  unitPrice :: rat

record Totals =
  lineTotals :: "rat list"
  subtotal :: rat
  taxAmount :: rat
  total :: rat

text \<open>
  Modelled from the spec: rounding to \<open>mu\<close> minor-unit digits, round-half-up (a value
  exactly halfway between two minor-unit amounts goes to the upper one).
\<close>

definition roundHalfUp :: "nat \<Rightarrow> rat \<Rightarrow> rat" where
  "roundHalfUp mu x = of_int \<lfloor>x * 10 ^ mu + 1 / 2\<rfloor> / 10 ^ mu"

text \<open>Modelled from the spec: \<^verbatim>\<open>lineTotal[i] = round(quantity[i] * unitPrice[i], currency_minor_units)\<close>.\<close>

definition lineTotal :: "nat \<Rightarrow> LineItem \<Rightarrow> rat" where
  "lineTotal mu it = roundHalfUp mu (quantity it * unitPrice it)"

text \<open>
  Modelled from the spec: the four bullets of the contract,
  \<^verbatim>\<open>subtotal = sum(lineTotals)\<close>,
  \<^verbatim>\<open>taxAmount = round(subtotal * taxRatePercent / 100, currency_minor_units)\<close>,
  \<^verbatim>\<open>total = subtotal + taxAmount\<close>.
\<close>

definition computeTotals :: "nat \<Rightarrow> LineItem list \<Rightarrow> rat \<Rightarrow> Totals" where
  "computeTotals mu items taxRatePercent =
    \<lparr>lineTotals = map (lineTotal mu) items,
     subtotal = sum_list (map (lineTotal mu) items),
     taxAmount = roundHalfUp mu (sum_list (map (lineTotal mu) items) * taxRatePercent / 100),
     total = sum_list (map (lineTotal mu) items)
           + roundHalfUp mu (sum_list (map (lineTotal mu) items) * taxRatePercent / 100)\<rparr>"

text \<open>
  Modelled from the spec: the workflow check in front of send and export, from the
  invariant "lineItems non-empty for a sendable invoice" of section 3. It is not part of
  the engine.
\<close>

definition sendable :: "LineItem list \<Rightarrow> bool" where
  "sendable items = (items \<noteq> [])"

text \<open>An amount that has no digits below the minor unit.\<close>

definition minorUnit :: "nat \<Rightarrow> rat \<Rightarrow> bool" where
  "minorUnit mu x = (x = of_int \<lfloor>x * 10 ^ mu\<rfloor> / 10 ^ mu)"

text \<open>The scenario of section 8, and two half-cent lines.\<close>

definition scenarioItems :: "LineItem list" where
  "scenarioItems =
    [\<lparr>description = ''Consulting'', quantity = 3, unitPrice = 100\<rparr>,
     \<lparr>description = ''Travel'', quantity = 1, unitPrice = 4999 / 100\<rparr>]"

definition halfCentItems :: "LineItem list" where
  "halfCentItems =
    [\<lparr>description = ''first half'', quantity = 1 / 2, unitPrice = 1 / 100\<rparr>,
     \<lparr>description = ''second half'', quantity = 1 / 2, unitPrice = 1 / 100\<rparr>]"

section \<open>Facts about the handlers\<close>

lemma status_errorResponse [simp]: "status (errorResponse c m) = c"
  by (simp add: errorResponse_def)

lemma status_validationFailed [simp]: "status (validationFailed errs) = 400"
  by (simp add: validationFailed_def)

lemma status_successResponse [simp]: "status (successResponse c m u toks) = c"
  by (simp add: successResponse_def)

lemma responseUser_successResponse [simp]: "responseUser (successResponse c m u toks) = Some u"
  by (simp add: successResponse_def responseUser_def)

lemma u_id_newUser [simp]: "u_id (newUser e h b) = newUserId e"
  by (simp add: newUser_def)

lemma u_email_newUser [simp]: "u_email (newUser e h b) = email b"
  by (simp add: newUser_def)

lemma t_defaultTemplate [simp]:
  "t_userId (defaultTemplate e owner) = owner"
  "t_isDefault (defaultTemplate e owner)"
  "t_isActive (defaultTemplate e owner)"
  by (simp_all add: defaultTemplate_def)

lemma hashPassword_Inr: "hashPassword e pw = Inr h \<Longrightarrow> h = bcryptHash e pw (salt e)"
  by (simp add: hashPassword_def split: if_splits)

lemma userCreate_Inr:
  "userCreate e d h b = Inr (u, d1) \<Longrightarrow>
     u = newUser e h b \<and> d1 = d\<lparr>users := users d @ [newUser e h b]\<rparr>
     \<and> \<not> list_ex (\<lambda>u. u_email u = email b \<or> u_id u = newUserId e) (users d)"
  by (auto simp: userCreate_def split: if_splits)

lemma templateCreate_Inr:
  "templateCreate e d t = Inr d2 \<Longrightarrow> d2 = d\<lparr>templates := templates d @ [t]\<rparr>"
  by (simp add: templateCreate_def split: if_splits)

text \<open>
  The four ways a registration ends: a 400 or a 500 before anything is written; a 500
  after the user row is written (the token signing or the template insert threw); a 201
  with the user row and the seeded template written.
\<close>

lemma register_cases:
  assumes "registerHandler b errs e d = (r, d')"
  shows "(status r = 400 \<and> d' = d)
       \<or> (status r = 500 \<and> d' = d)
       \<or> (status r = 500
            \<and> \<not> list_ex (\<lambda>u. u_email u = email b \<or> u_id u = newUserId e) (users d)
            \<and> d' = d\<lparr>users := users d @ [newUser e (bcryptHash e (password b) (salt e)) b]\<rparr>)
       \<or> (status r = 201
            \<and> \<not> list_ex (\<lambda>u. u_email u = email b \<or> u_id u = newUserId e) (users d)
            \<and> d' = d\<lparr>users := users d @ [newUser e (bcryptHash e (password b) (salt e)) b],
                     templates := templates d @ [defaultTemplate e (newUserId e)]\<rparr>
            \<and> responseUser r
                = Some (JObj (prismaSelect registerSelect
                     (userRow (newUser e (bcryptHash e (password b) (salt e)) b)))))"
  using assms
  by (auto simp: registerHandler_def
      split: if_splits sum.splits option.splits prod.splits
      dest!: hashPassword_Inr userCreate_Inr templateCreate_Inr)

lemma login_keeps_db: "snd (loginHandler em pw errs e d) = d"
  by (simp add: loginHandler_def split: sum.splits option.splits)

lemma refresh_keeps_db: "snd (refreshHandler tok e d) = d"
  by (simp add: refreshHandler_def split: sum.splits option.splits)

lemma login_success:
  "loginHandler em pw errs e d = (r, d') \<Longrightarrow> status r = 200 \<Longrightarrow>
     \<exists>u. find (\<lambda>u. u_email u = em) (users d) = Some u \<and> responseUser r = Some (loginUserData u)"
  by (auto simp: loginHandler_def findUniqueByEmail_def split: if_splits sum.splits option.splits)

text \<open>
  One login request against two databases, one without the account and one with it: when
  the password does not match, the answers are the same, whatever validation and the
  lookup do.
\<close>

lemma login_same_request_two_databases:
  assumes "\<not> throws e Compare"
    and "find (\<lambda>u. u_email u = em) (users d1) = None"
    and "find (\<lambda>u. u_email u = em) (users d2) = Some u"
    and "\<not> bcryptCompare e pw (u_password u)"
  shows "fst (loginHandler em pw errs e d1) = fst (loginHandler em pw errs e d2)"
  using assms by (simp add: loginHandler_def findUniqueByEmail_def)

text \<open>The concrete runs: Alice registers into the empty database.\<close>

lemma alice_registers:
  "registerHandler aliceBody [] quietEnv emptyDb =
     (successResponse 201 ''User registered successfully''
        (JObj (prismaSelect registerSelect (userRow (newUser quietEnv ''ssecret1'' aliceBody))))
        (''u1.15m'', ''u1.7d''),
      \<lparr>users = [newUser quietEnv ''ssecret1'' aliceBody],
       templates = [defaultTemplate quietEnv ''u1'']\<rparr>)"
  by (simp add: registerHandler_def findUniqueByEmail_def hashPassword_def userCreate_def
      generateTokens_def templateCreate_def quietEnv_def emptyDb_def aliceBody_def)

lemma aliceDb_eq:
  "aliceDb = \<lparr>users = [newUser quietEnv ''ssecret1'' aliceBody],
              templates = [defaultTemplate quietEnv ''u1'']\<rparr>"
  by (simp add: aliceDb_def alice_registers)

lemma alice_template_fails:
  "registerHandler aliceBody [] templateFailsEnv emptyDb =
     (errorResponse 500 ''Internal server error'',
      \<lparr>users = [newUser templateFailsEnv ''ssecret1'' aliceBody], templates = []\<rparr>)"
  by (simp add: registerHandler_def findUniqueByEmail_def hashPassword_def userCreate_def
      generateTokens_def templateCreate_def templateFailsEnv_def quietEnv_def emptyDb_def
      aliceBody_def)

text \<open>The same happens when the token signing throws (no \<^verbatim>\<open>JWT_SECRET\<close>, say).\<close>

lemma alice_signing_fails:
  "registerHandler aliceBody [] (quietEnv\<lparr>throws := (\<lambda>c. c = JwtSign)\<rparr>) emptyDb =
     (errorResponse 500 ''Internal server error'',
      \<lparr>users = [newUser (quietEnv\<lparr>throws := (\<lambda>c. c = JwtSign)\<rparr>) ''ssecret1'' aliceBody],
       templates = []\<rparr>)"
  by (simp add: registerHandler_def findUniqueByEmail_def hashPassword_def userCreate_def
      generateTokens_def quietEnv_def emptyDb_def aliceBody_def)

lemma alice_logs_in:
  "loginHandler ''alice@example.com'' ''secret1'' [] quietEnv aliceDb =
     (successResponse 200 ''Login successful''
        (loginUserData (newUser quietEnv ''ssecret1'' aliceBody)) (''u1.15m'', ''u1.7d''),
      aliceDb)"
  by (simp add: loginHandler_def findUniqueByEmail_def generateTokens_def aliceDb_eq
      quietEnv_def aliceBody_def newUser_def)

lemma alice_refreshes:
  "refreshHandler (Some ''u1.7d'') quietEnv aliceDb =
     (successResponse 200 ''Token refreshed successfully''
        (JObj (prismaSelect refreshSelect (userRow (newUser quietEnv ''ssecret1'' aliceBody))))
        (''u1.15m'', ''u1.7d''),
      aliceDb)"
  by (simp add: refreshHandler_def findUniqueById_def generateTokens_def aliceDb_eq
      quietEnv_def aliceBody_def newUser_def)

lemma u_password_newUser [simp]: "u_password (newUser e h b) = h"
  by (simp add: newUser_def)

text \<open>The entries that the two selections keep of a row.\<close>

lemma entries_register_select:
  "prismaSelect registerSelect (userRow u) =
     [(''id'', JStr (u_id u)),
      (''email'', JStr (u_email u)),
      (''firstName'', JStr (u_firstName u)),
      (''lastName'', JStr (u_lastName u)),
      (''company'', optJson (u_company u)),
      (''logo'', optJson (u_logo u)),
      (''currency'', JStr (u_currency u)),
      (''timezone'', JStr (u_timezone u)),
      (''createdAt'', JStr (u_createdAt u))]"
  by (simp add: prismaSelect_def registerSelect_def userRow_def)

lemma entries_refresh_select:
  "prismaSelect refreshSelect (userRow u) =
     [(''id'', JStr (u_id u)),
      (''email'', JStr (u_email u)),
      (''firstName'', JStr (u_firstName u)),
      (''lastName'', JStr (u_lastName u)),
      (''company'', optJson (u_company u)),
      (''logo'', optJson (u_logo u)),
      (''currency'', JStr (u_currency u)),
      (''timezone'', JStr (u_timezone u))]"
  by (simp add: prismaSelect_def refreshSelect_def userRow_def)

lemma refresh_success_row:
  "refreshHandler tok e d = (r, d') \<Longrightarrow> status r = 200 \<Longrightarrow>
     \<exists>t userId u. tok = Some t \<and> jwtVerify e t = Some userId
       \<and> find (\<lambda>u. u_id u = userId) (users d) = Some u
       \<and> responseUser r = Some (JObj (prismaSelect refreshSelect (userRow u)))"
  by (auto simp: refreshHandler_def findUniqueById_def split: if_splits sum.splits option.splits)

section \<open>Registration and the default template\<close>

text \<open>
  C5. At most one template of any owner is flagged default, and a successful
  registration seeds the new user with exactly one template, flagged default and active.
  Stated on the register handler: from a database in which every owner has at most one
  default template and every template belongs to a user row, any registration (whatever
  its outcome, whatever call throws) leads to a database with the same two properties;
  and when it answers 201, the new user's row is stored and the templates of the new user
  are exactly the seeded one, which has \<open>isDefault\<close> and \<open>isActive\<close> set.
\<close>

theorem register_seeds_one_default:
  assumes inv: "\<forall>owner. length (defaultsOf d owner) \<le> 1"
    and fk: "t_userId ` set (templates d) \<subseteq> u_id ` set (users d)"
    and run: "registerHandler b errs e d = (r, d')"
  shows "(\<forall>owner. length (defaultsOf d' owner) \<le> 1)
       \<and> t_userId ` set (templates d') \<subseteq> u_id ` set (users d')
       \<and> (status r = 201 \<longrightarrow>
            list_ex (\<lambda>u. u_id u = newUserId e \<and> u_email u = email b) (users d')
          \<and> templatesOf d' (newUserId e) = [defaultTemplate e (newUserId e)]
          \<and> defaultsOf d' (newUserId e) = [defaultTemplate e (newUserId e)]
          \<and> t_isDefault (defaultTemplate e (newUserId e))
          \<and> t_isActive (defaultTemplate e (newUserId e)))"
proof -
  let ?nu = "newUser e (bcryptHash e (password b) (salt e)) b"
  let ?dt = "defaultTemplate e (newUserId e)"
  from register_cases[OF run]
  consider (same) "d' = d" "status r \<noteq> 201"
    | (user) "d' = d\<lparr>users := users d @ [?nu]\<rparr>" "status r \<noteq> 201"
    | (both) "\<not> list_ex (\<lambda>u. u_email u = email b \<or> u_id u = newUserId e) (users d)"
             "d' = d\<lparr>users := users d @ [?nu], templates := templates d @ [?dt]\<rparr>"
    by auto
  then show ?thesis
  proof cases
    case same
    with inv fk show ?thesis by simp
  next
    case user
    with inv fk show ?thesis by (auto simp: defaultsOf_def)
  next
    case both
    have fresh: "\<forall>t\<in>set (templates d). t_userId t \<noteq> newUserId e"
      using both(1) fk by (auto simp: list_ex_iff)
    then have none: "filter (\<lambda>t. t_userId t = newUserId e) (templates d) = []"
      by (auto simp: filter_empty_conv)
    then have none': "filter (\<lambda>t. t_userId t = newUserId e \<and> t_isDefault t) (templates d) = []"
      by (auto simp: filter_empty_conv)
    have "length (defaultsOf d' owner) \<le> 1" for owner
    proof (cases "owner = newUserId e")
      case True
      then show ?thesis using none' both(2) by (simp add: defaultsOf_def)
    next
      case False
      then show ?thesis using inv[rule_format, of owner] both(2) by (simp add: defaultsOf_def)
    qed
    moreover have "t_userId ` set (templates d') \<subseteq> u_id ` set (users d')"
      using fk both(2) by auto
    moreover have "list_ex (\<lambda>u. u_id u = newUserId e \<and> u_email u = email b) (users d')"
      using both(2) by (simp add: list_ex_iff)
    moreover have "templatesOf d' (newUserId e) = [?dt]" "defaultsOf d' (newUserId e) = [?dt]"
      using none none' both(2) by (simp_all add: templatesOf_def defaultsOf_def)
    ultimately show ?thesis by simp
  qed
qed

text \<open>Alice registers into the empty database and owns exactly the seeded template.\<close>

theorem register_seeds_one_default_witness:
  "status (fst (registerHandler aliceBody [] quietEnv emptyDb)) = 201
   \<and> templatesOf aliceDb ''u1'' = [defaultTemplate quietEnv ''u1'']
   \<and> length (defaultsOf aliceDb ''u1'') = 1"
proof -
  have inv: "\<forall>owner. length (defaultsOf emptyDb owner) \<le> 1"
    by (simp add: defaultsOf_def emptyDb_def)
  have fk: "t_userId ` set (templates emptyDb) \<subseteq> u_id ` set (users emptyDb)"
    by (simp add: emptyDb_def)
  have run: "registerHandler aliceBody [] quietEnv emptyDb
               = (fst (registerHandler aliceBody [] quietEnv emptyDb), aliceDb)"
    by (simp add: aliceDb_def)
  have ok: "status (fst (registerHandler aliceBody [] quietEnv emptyDb)) = 201"
    by (simp add: alice_registers)
  have nid: "newUserId quietEnv = ''u1''"
    by (simp add: quietEnv_def)
  from register_seeds_one_default[OF inv fk run] ok nid show ?thesis
    by simp
qed

section \<open>Errors and the persisted state\<close>

text \<open>
  C6, as amended. Login and token refresh never change the persisted state. When
  registration answers 400 the persisted state is unchanged. When registration answers
  500, no template row written during the request remains, and the user table is either
  unchanged or holds exactly one more row, the user created during the request: the
  handler writes the user row and the template row in two separate calls and does not
  take the user row back when the token signing or the template insert throws afterwards.
\<close>

theorem error_leaves_state:
  "snd (loginHandler em pw lerrs le d) = d
   \<and> snd (refreshHandler tok re d) = d
   \<and> (registerHandler b errs e d = (r, d') \<longrightarrow>
        (status r = 400 \<longrightarrow> d' = d)
      \<and> (status r = 500 \<longrightarrow>
            templates d' = templates d
          \<and> (users d' = users d
              \<or> users d' = users d @ [newUser e (bcryptHash e (password b) (salt e)) b])))"
proof -
  have "(status r = 400 \<longrightarrow> d' = d)
      \<and> (status r = 500 \<longrightarrow>
            templates d' = templates d
          \<and> (users d' = users d
              \<or> users d' = users d @ [newUser e (bcryptHash e (password b) (salt e)) b]))"
    if "registerHandler b errs e d = (r, d')"
    using register_cases[OF that] by auto
  then show ?thesis
    by (simp add: login_keeps_db refresh_keeps_db)
qed

text \<open>
  The run behind the amendment: the template insert throws, the answer is 500, the
  template table is as before and the user table holds the user just created.
\<close>

theorem error_leaves_state_witness:
  "status (errorResponse 500 ''Internal server error'') = 500
   \<and> templates \<lparr>users = [newUser templateFailsEnv ''ssecret1'' aliceBody], templates = []\<rparr>
       = templates emptyDb
   \<and> users \<lparr>users = [newUser templateFailsEnv ''ssecret1'' aliceBody], templates = []\<rparr>
       = users emptyDb
         @ [newUser templateFailsEnv
              (bcryptHash templateFailsEnv (password aliceBody) (salt templateFailsEnv)) aliceBody]"
proof -
  have st: "status (errorResponse 500 ''Internal server error'') = 500"
    by simp
  have h: "bcryptHash templateFailsEnv (password aliceBody) (salt templateFailsEnv) = ''ssecret1''"
    by (simp add: templateFailsEnv_def quietEnv_def aliceBody_def)
  from error_leaves_state[of _ _ _ _ emptyDb _ _ aliceBody "[]" templateFailsEnv
      "errorResponse 500 ''Internal server error''"
      "\<lparr>users = [newUser templateFailsEnv ''ssecret1'' aliceBody], templates = []\<rparr>"]
    alice_template_fails st h
  show ?thesis
    by (simp add: emptyDb_def)
qed

text \<open>
  The claim as stated fails: registration answers 500 and the user row created during
  the request is still stored.
\<close>

theorem register_error_keeps_user_counterexample:
  "status (fst (registerHandler aliceBody [] templateFailsEnv emptyDb)) = 500
   \<and> map u_email (users (snd (registerHandler aliceBody [] templateFailsEnv emptyDb)))
       = [''alice@example.com'']
   \<and> snd (registerHandler aliceBody [] templateFailsEnv emptyDb) \<noteq> emptyDb"
proof -
  have "email aliceBody = ''alice@example.com''"
    by (simp add: aliceBody_def)
  moreover have "\<lparr>users = [newUser templateFailsEnv ''ssecret1'' aliceBody], templates = []\<rparr>
      \<noteq> emptyDb"
    by (simp add: emptyDb_def)
  ultimately show ?thesis
    by (simp add: alice_template_fails)
qed

section \<open>Login answers\<close>




section \<open>The user object of a success answer\<close>

text \<open>
  C10. In every successful answer of register (201), login (200) and refresh (200), the
  user object has exactly the entries id, email, firstName, lastName, company, logo,
  currency, timezone, followed by createdAt for register and login, and each entry holds
  the column of that name of the user's row: the row just stored for register, the row
  found by email for login, the row found by the token's user id for refresh. The key
  \<open>password\<close> is not among them, and no entry is taken from the row's password column,
  where the hash is stored.
\<close>

theorem success_user_object_fields:
  "(registerHandler b errs1 e1 db1 = (r1, db1') \<and> status r1 = 201 \<longrightarrow>
      (\<exists>u obj. users db1' = users db1 @ [u]
         \<and> u_password u = bcryptHash e1 (password b) (salt e1)
         \<and> responseUser r1 = Some obj
         \<and> obj = JObj [(''id'', JStr (u_id u)),
                       (''email'', JStr (u_email u)),
                       (''firstName'', JStr (u_firstName u)),
                       (''lastName'', JStr (u_lastName u)),
                       (''company'', optJson (u_company u)),
                       (''logo'', optJson (u_logo u)),
                       (''currency'', JStr (u_currency u)),
                       (''timezone'', JStr (u_timezone u)),
                       (''createdAt'', JStr (u_createdAt u))]
         \<and> jkeys obj = [''id'', ''email'', ''firstName'', ''lastName'', ''company'', ''logo'',
                        ''currency'', ''timezone'', ''createdAt'']
         \<and> ''password'' \<notin> set (jkeys obj)))
 \<and> (loginHandler em pw errs2 e2 db2 = (r2, db2') \<and> status r2 = 200 \<longrightarrow>
      (\<exists>u obj. find (\<lambda>u. u_email u = em) (users db2) = Some u
         \<and> responseUser r2 = Some obj
         \<and> obj = JObj [(''id'', JStr (u_id u)),
                       (''email'', JStr (u_email u)),
                       (''firstName'', JStr (u_firstName u)),
                       (''lastName'', JStr (u_lastName u)),
                       (''company'', optJson (u_company u)),
                       (''logo'', optJson (u_logo u)),
                       (''currency'', JStr (u_currency u)),
                       (''timezone'', JStr (u_timezone u)),
                       (''createdAt'', JStr (u_createdAt u))]
         \<and> jkeys obj = [''id'', ''email'', ''firstName'', ''lastName'', ''company'', ''logo'',
                        ''currency'', ''timezone'', ''createdAt'']
         \<and> ''password'' \<notin> set (jkeys obj)))
 \<and> (refreshHandler tok e3 db3 = (r3, db3') \<and> status r3 = 200 \<longrightarrow>
      (\<exists>t userId u obj. tok = Some t \<and> jwtVerify e3 t = Some userId
         \<and> find (\<lambda>u. u_id u = userId) (users db3) = Some u
         \<and> responseUser r3 = Some obj
         \<and> obj = JObj [(''id'', JStr (u_id u)),
                       (''email'', JStr (u_email u)),
                       (''firstName'', JStr (u_firstName u)),
                       (''lastName'', JStr (u_lastName u)),
                       (''company'', optJson (u_company u)),
                       (''logo'', optJson (u_logo u)),
                       (''currency'', JStr (u_currency u)),
                       (''timezone'', JStr (u_timezone u))]
         \<and> jkeys obj = [''id'', ''email'', ''firstName'', ''lastName'', ''company'', ''logo'',
                        ''currency'', ''timezone'']
         \<and> ''password'' \<notin> set (jkeys obj)))"
proof (intro conjI impI)
  assume a: "registerHandler b errs1 e1 db1 = (r1, db1') \<and> status r1 = 201"
  let ?u = "newUser e1 (bcryptHash e1 (password b) (salt e1)) b"
  from a register_cases[of b errs1 e1 db1 r1 db1']
  have "users db1' = users db1 @ [?u]"
    and "responseUser r1 = Some (JObj (prismaSelect registerSelect (userRow ?u)))"
    by auto
  then show "\<exists>u obj. users db1' = users db1 @ [u]
         \<and> u_password u = bcryptHash e1 (password b) (salt e1)
         \<and> responseUser r1 = Some obj
         \<and> obj = JObj [(''id'', JStr (u_id u)),
                       (''email'', JStr (u_email u)),
                       (''firstName'', JStr (u_firstName u)),
                       (''lastName'', JStr (u_lastName u)),
                       (''company'', optJson (u_company u)),
                       (''logo'', optJson (u_logo u)),
                       (''currency'', JStr (u_currency u)),
                       (''timezone'', JStr (u_timezone u)),
                       (''createdAt'', JStr (u_createdAt u))]
         \<and> jkeys obj = [''id'', ''email'', ''firstName'', ''lastName'', ''company'', ''logo'',
                        ''currency'', ''timezone'', ''createdAt'']
         \<and> ''password'' \<notin> set (jkeys obj)"
    by (intro exI[of _ ?u]) (simp add: entries_register_select)
next
  assume a: "loginHandler em pw errs2 e2 db2 = (r2, db2') \<and> status r2 = 200"
  from a login_success[of em pw errs2 e2 db2 r2 db2']
  obtain u where "find (\<lambda>u. u_email u = em) (users db2) = Some u"
    and "responseUser r2 = Some (loginUserData u)"
    by auto
  then show "\<exists>u obj. find (\<lambda>u. u_email u = em) (users db2) = Some u
         \<and> responseUser r2 = Some obj
         \<and> obj = JObj [(''id'', JStr (u_id u)),
                       (''email'', JStr (u_email u)),
                       (''firstName'', JStr (u_firstName u)),
                       (''lastName'', JStr (u_lastName u)),
                       (''company'', optJson (u_company u)),
                       (''logo'', optJson (u_logo u)),
                       (''currency'', JStr (u_currency u)),
                       (''timezone'', JStr (u_timezone u)),
                       (''createdAt'', JStr (u_createdAt u))]
         \<and> jkeys obj = [''id'', ''email'', ''firstName'', ''lastName'', ''company'', ''logo'',
                        ''currency'', ''timezone'', ''createdAt'']
         \<and> ''password'' \<notin> set (jkeys obj)"
    by (intro exI[of _ u]) (simp add: loginUserData_def)
next
  assume a: "refreshHandler tok e3 db3 = (r3, db3') \<and> status r3 = 200"
  from a refresh_success_row[of tok e3 db3 r3 db3']
  obtain t userId u where "tok = Some t" and "jwtVerify e3 t = Some userId"
    and "find (\<lambda>u. u_id u = userId) (users db3) = Some u"
    and "responseUser r3 = Some (JObj (prismaSelect refreshSelect (userRow u)))"
    by auto
  then show "\<exists>t userId u obj. tok = Some t \<and> jwtVerify e3 t = Some userId
         \<and> find (\<lambda>u. u_id u = userId) (users db3) = Some u
         \<and> responseUser r3 = Some obj
         \<and> obj = JObj [(''id'', JStr (u_id u)),
                       (''email'', JStr (u_email u)),
                       (''firstName'', JStr (u_firstName u)),
                       (''lastName'', JStr (u_lastName u)),
                       (''company'', optJson (u_company u)),
                       (''logo'', optJson (u_logo u)),
                       (''currency'', JStr (u_currency u)),
                       (''timezone'', JStr (u_timezone u))]
         \<and> jkeys obj = [''id'', ''email'', ''firstName'', ''lastName'', ''company'', ''logo'',
                        ''currency'', ''timezone'']
         \<and> ''password'' \<notin> set (jkeys obj)"
    by (intro exI[of _ t] exI[of _ userId] exI[of _ u]) (simp add: entries_refresh_select)
qed

text \<open>
  Alice registers, logs in and refreshes. Each answer carries a user object without the
  password key; the one of the login answer is spelled out.
\<close>

theorem success_user_object_fields_witness:
  "status (fst (registerHandler aliceBody [] quietEnv emptyDb)) = 201
   \<and> status (fst (loginHandler ''alice@example.com'' ''secret1'' [] quietEnv aliceDb)) = 200
   \<and> status (fst (refreshHandler (Some ''u1.7d'') quietEnv aliceDb)) = 200
   \<and> responseUser (fst (loginHandler ''alice@example.com'' ''secret1'' [] quietEnv aliceDb))
       = Some (JObj [(''id'', JStr ''u1''),
                     (''email'', JStr ''alice@example.com''),
                     (''firstName'', JStr ''Alice''),
                     (''lastName'', JStr ''Liddell''),
                     (''company'', JStr ''Wonderland Ltd''),
                     (''logo'', JNull),
                     (''currency'', JStr ''USD''),
                     (''timezone'', JStr ''UTC''),
                     (''createdAt'', JStr ''2024-01-01T00:00:00Z'')])
   \<and> (\<exists>obj. responseUser (fst (registerHandler aliceBody [] quietEnv emptyDb)) = Some obj
          \<and> ''password'' \<notin> set (jkeys obj))
   \<and> (\<exists>obj. responseUser (fst (refreshHandler (Some ''u1.7d'') quietEnv aliceDb)) = Some obj
          \<and> ''password'' \<notin> set (jkeys obj))"
proof -
  have s1: "status (fst (registerHandler aliceBody [] quietEnv emptyDb)) = 201"
    by (simp add: alice_registers)
  have s2: "status (fst (loginHandler ''alice@example.com'' ''secret1'' [] quietEnv aliceDb)) = 200"
    by (simp add: alice_logs_in)
  have s3: "status (fst (refreshHandler (Some ''u1.7d'') quietEnv aliceDb)) = 200"
    by (simp add: alice_refreshes)
  have alice: "find (\<lambda>u. u_email u = ''alice@example.com'') (users aliceDb)
                 = Some (newUser quietEnv ''ssecret1'' aliceBody)"
    by (simp add: aliceDb_eq aliceBody_def)
  note all = success_user_object_fields[of aliceBody "[]" quietEnv emptyDb
      "fst (registerHandler aliceBody [] quietEnv emptyDb)"
      "snd (registerHandler aliceBody [] quietEnv emptyDb)"
      "''alice@example.com''" "''secret1''" "[]" quietEnv aliceDb
      "fst (loginHandler ''alice@example.com'' ''secret1'' [] quietEnv aliceDb)"
      "snd (loginHandler ''alice@example.com'' ''secret1'' [] quietEnv aliceDb)"
      "Some ''u1.7d''" quietEnv aliceDb
      "fst (refreshHandler (Some ''u1.7d'') quietEnv aliceDb)"
      "snd (refreshHandler (Some ''u1.7d'') quietEnv aliceDb)"]
  from all s1
  have reg: "\<exists>obj. responseUser (fst (registerHandler aliceBody [] quietEnv emptyDb)) = Some obj
          \<and> ''password'' \<notin> set (jkeys obj)"
    by auto
  from all s3
  have ref: "\<exists>obj. responseUser (fst (refreshHandler (Some ''u1.7d'') quietEnv aliceDb)) = Some obj
          \<and> ''password'' \<notin> set (jkeys obj)"
    by auto
  from all s2 alice
  have "responseUser (fst (loginHandler ''alice@example.com'' ''secret1'' [] quietEnv aliceDb))
       = Some (JObj [(''id'', JStr (u_id (newUser quietEnv ''ssecret1'' aliceBody))),
                     (''email'', JStr (u_email (newUser quietEnv ''ssecret1'' aliceBody))),
                     (''firstName'', JStr (u_firstName (newUser quietEnv ''ssecret1'' aliceBody))),
                     (''lastName'', JStr (u_lastName (newUser quietEnv ''ssecret1'' aliceBody))),
                     (''company'', optJson (u_company (newUser quietEnv ''ssecret1'' aliceBody))),
                     (''logo'', optJson (u_logo (newUser quietEnv ''ssecret1'' aliceBody))),
                     (''currency'', JStr (u_currency (newUser quietEnv ''ssecret1'' aliceBody))),
                     (''timezone'', JStr (u_timezone (newUser quietEnv ''ssecret1'' aliceBody))),
                     (''createdAt'', JStr (u_createdAt (newUser quietEnv ''ssecret1'' aliceBody)))])"
    by auto
  then have login: "responseUser (fst (loginHandler ''alice@example.com'' ''secret1'' [] quietEnv aliceDb))
       = Some (JObj [(''id'', JStr ''u1''),
                     (''email'', JStr ''alice@example.com''),
                     (''firstName'', JStr ''Alice''),
                     (''lastName'', JStr ''Liddell''),
                     (''company'', JStr ''Wonderland Ltd''),
                     (''logo'', JNull),
                     (''currency'', JStr ''USD''),
                     (''timezone'', JStr ''UTC''),
                     (''createdAt'', JStr ''2024-01-01T00:00:00Z'')])"
    by (simp add: newUser_def aliceBody_def quietEnv_def optJson_def)
  from s1 s2 s3 login reg ref show ?thesis
    by (intro conjI)
qed

section \<open>Facts about rounding\<close>

lemma floor_rat_numeral_div: "\<lfloor>numeral a / numeral b :: rat\<rfloor> = numeral a div numeral b"
  by (metis floor_divide_of_int_eq of_int_numeral)

lemma floor_rat_half: "\<lfloor>1 / 2 :: rat\<rfloor> = 0"
  by (rule floor_unique) simp_all

lemma floor_int_plus_half: "\<lfloor>(of_int k :: rat) + 1 / 2\<rfloor> = k"
  by (rule floor_unique) simp_all

lemma roundHalfUp_zero: "roundHalfUp mu 0 = 0"
  by (simp add: roundHalfUp_def floor_rat_half)

lemma minorUnitI: "x = of_int k / 10 ^ mu \<Longrightarrow> minorUnit mu x"
  by (simp add: minorUnit_def)

lemma minorUnit_roundHalfUp: "minorUnit mu (roundHalfUp mu x)"
  by (rule minorUnitI[of _ "\<lfloor>x * 10 ^ mu + 1 / 2\<rfloor>"]) (simp add: roundHalfUp_def)

lemma minorUnit_zero: "minorUnit mu 0"
  by (simp add: minorUnit_def)

lemma minorUnit_add:
  assumes x: "minorUnit mu x" and y: "minorUnit mu y"
  shows "minorUnit mu (x + y)"
proof -
  have "x + y = of_int (\<lfloor>x * 10 ^ mu\<rfloor> + \<lfloor>y * 10 ^ mu\<rfloor>) / 10 ^ mu"
    using x y unfolding minorUnit_def by (simp add: add_divide_distrib)
  then show ?thesis by (rule minorUnitI)
qed

lemma minorUnit_sum_list:
  "(\<And>x. x \<in> set xs \<Longrightarrow> minorUnit mu x) \<Longrightarrow> minorUnit mu (sum_list xs)"
  by (induction xs) (simp_all add: minorUnit_add minorUnit_zero)

text \<open>Rounding an amount that is already in minor units changes nothing.\<close>

lemma roundHalfUp_minorUnit:
  assumes x: "minorUnit mu x"
  shows "roundHalfUp mu x = x"
proof -
  have "x * 10 ^ mu = (of_int \<lfloor>x * 10 ^ mu\<rfloor> / 10 ^ mu) * 10 ^ mu"
    using x unfolding minorUnit_def by simp
  then have scaled: "x * 10 ^ mu = of_int \<lfloor>x * 10 ^ mu\<rfloor>"
    by simp
  have "\<lfloor>x * 10 ^ mu + 1 / 2\<rfloor> = \<lfloor>x * 10 ^ mu\<rfloor>"
    using floor_int_plus_half[of "\<lfloor>x * 10 ^ mu\<rfloor>"] scaled by simp
  then show ?thesis
    using x unfolding roundHalfUp_def minorUnit_def by simp
qed

lemma minorUnit_subtotal: "minorUnit mu (sum_list (map (lineTotal mu) items))"
  by (rule minorUnit_sum_list) (auto simp: lineTotal_def minorUnit_roundHalfUp)

text \<open>
  Two lines of half a cent each: each line rounds up to one cent, so the subtotal is two
  cents, while rounding the unrounded sum (one cent) would give one cent.
\<close>

lemma half_cent_lines:
  "subtotal (computeTotals 2 halfCentItems 0) = 2 / 100
   \<and> roundHalfUp 2 (sum_list (map (\<lambda>it. quantity it * unitPrice it) halfCentItems)) = 1 / 100"
  by (simp add: computeTotals_def halfCentItems_def lineTotal_def roundHalfUp_def
      floor_rat_numeral_div)

lemma scenario_totals:
  "computeTotals 2 scenarioItems (33 / 4) =
     \<lparr>lineTotals = [300, 4999 / 100], subtotal = 34999 / 100,
      taxAmount = 2887 / 100, total = 37886 / 100\<rparr>"
  by (simp add: computeTotals_def scenarioItems_def lineTotal_def roundHalfUp_def
      floor_rat_numeral_div)

section \<open>Line totals, subtotal, tax and total\<close>

text \<open>
  C1. For every sequence of line items, each line total is the product of quantity and
  unit price rounded half-up to the currency's minor units, and the subtotal is the sum of
  these rounded line totals. No rounding is applied to the sum: it is already an amount in
  minor units, so rounding it would not change it.
\<close>

theorem subtotal_is_sum_of_rounded_lines:
  "lineTotals (computeTotals mu items taxRatePercent)
     = map (\<lambda>it. roundHalfUp mu (quantity it * unitPrice it)) items
   \<and> subtotal (computeTotals mu items taxRatePercent)
     = sum_list (lineTotals (computeTotals mu items taxRatePercent))
   \<and> roundHalfUp mu (subtotal (computeTotals mu items taxRatePercent))
     = subtotal (computeTotals mu items taxRatePercent)"
proof -
  have "lineTotal mu = (\<lambda>it. roundHalfUp mu (quantity it * unitPrice it))"
    by (rule ext) (simp add: lineTotal_def)
  then have "lineTotals (computeTotals mu items taxRatePercent)
     = map (\<lambda>it. roundHalfUp mu (quantity it * unitPrice it)) items"
    by (simp add: computeTotals_def)
  moreover have "subtotal (computeTotals mu items taxRatePercent)
     = sum_list (lineTotals (computeTotals mu items taxRatePercent))"
    by (simp add: computeTotals_def)
  moreover have "roundHalfUp mu (subtotal (computeTotals mu items taxRatePercent))
     = subtotal (computeTotals mu items taxRatePercent)"
    using roundHalfUp_minorUnit[OF minorUnit_subtotal[of mu items]]
    by (simp add: computeTotals_def)
  ultimately show ?thesis by (intro conjI)
qed

text \<open>
  C2. For every sequence of line items and every tax rate that is not negative, the tax
  amount is the subtotal times the rate over 100, rounded half-up to minor units, and the
  total is the subtotal plus the tax amount. For the lines 3 at 100.00 and 1 at 49.99 with
  a rate of 8.25 percent, the line totals are 300.00 and 49.99, the subtotal 349.99, the
  tax amount 28.87 and the total 378.86.
\<close>

theorem tax_and_total:
  "(0 \<le> taxRatePercent \<longrightarrow>
      taxAmount (computeTotals mu items taxRatePercent)
        = roundHalfUp mu (subtotal (computeTotals mu items taxRatePercent) * taxRatePercent / 100)
    \<and> total (computeTotals mu items taxRatePercent)
        = subtotal (computeTotals mu items taxRatePercent)
          + taxAmount (computeTotals mu items taxRatePercent))
   \<and> computeTotals 2 scenarioItems (33 / 4)
        = \<lparr>lineTotals = [300, 4999 / 100], subtotal = 34999 / 100,
           taxAmount = 2887 / 100, total = 37886 / 100\<rparr>"
  by (simp add: scenario_totals) (simp add: computeTotals_def)

text \<open>The scenario, through the general statement: 8.25 percent of 349.99 is 28.874175.\<close>

theorem tax_and_total_witness:
  "(0::rat) \<le> 33 / 4
   \<and> subtotal (computeTotals 2 scenarioItems (33 / 4)) = 34999 / 100
   \<and> taxAmount (computeTotals 2 scenarioItems (33 / 4)) = 2887 / 100
   \<and> total (computeTotals 2 scenarioItems (33 / 4)) = 37886 / 100"
proof -
  have rate: "(0::rat) \<le> 33 / 4"
    by simp
  have sub: "subtotal (computeTotals 2 scenarioItems (33 / 4)) = 34999 / 100"
    by (simp add: computeTotals_def scenarioItems_def lineTotal_def roundHalfUp_def
        floor_rat_numeral_div)
  have r: "roundHalfUp 2 ((34999 / 100) * (33 / 4) / 100) = 2887 / 100"
    by (simp add: roundHalfUp_def floor_rat_numeral_div)
  from tax_and_total[of "33 / 4" 2 scenarioItems] rate
  have tax: "taxAmount (computeTotals 2 scenarioItems (33 / 4))
               = roundHalfUp 2 (subtotal (computeTotals 2 scenarioItems (33 / 4)) * (33 / 4) / 100)"
    and tot: "total (computeTotals 2 scenarioItems (33 / 4))
               = subtotal (computeTotals 2 scenarioItems (33 / 4))
                 + taxAmount (computeTotals 2 scenarioItems (33 / 4))"
    by blast+
  have tax': "taxAmount (computeTotals 2 scenarioItems (33 / 4)) = 2887 / 100"
    using tax sub r by simp
  have tot': "total (computeTotals 2 scenarioItems (33 / 4)) = 37886 / 100"
    using tot sub tax' by simp
  from rate sub tax' tot' show ?thesis
    by (intro conjI)
qed

text \<open>
  C7. For the empty sequence of line items the engine returns a result, with no line
  totals and subtotal, tax amount and total all 0; the engine has no failing outcome.
  That such an invoice is not sent or exported is decided by the workflow in front of
  send and export, which refuses an invoice without line items.
\<close>

theorem empty_invoice_totals:
  "computeTotals mu [] taxRatePercent
     = \<lparr>lineTotals = [], subtotal = 0, taxAmount = 0, total = 0\<rparr>
   \<and> \<not> sendable []"
  by (simp add: computeTotals_def roundHalfUp_zero sendable_def)

end
